theory Spec2Isabelle
  imports Complex_Main
begin

section \<open>RobotClientAPI.py: the RobotAPI facade\<close>

text \<open>
  The class \<^verbatim>\<open>RobotAPI\<close> wraps one HTTP call per method (library \<^verbatim>\<open>requests\<close>) and
  turns every exception of the call into a fixed return value. The embedding below makes
  the three effects of the code explicit:
  \<^item> the remote server and the network are a parameter \<open>net\<close>, giving for each request
    either the response or the exception that \<^verbatim>\<open>requests.get\<close> / \<^verbatim>\<open>requests.post\<close> raises;
  \<^item> the requests issued and the lines printed are collected in a \<open>world\<close> record that
    every method takes and returns;
  \<^item> the object \<^verbatim>\<open>self\<close> is a record that every method takes and returns, so that an
    assignment to one of its fields would show in the result.
  A method returns \<open>Inl e\<close> when the exception \<open>e\<close> leaves it and \<open>Inr v\<close> when it
  returns \<open>v\<close>.

  Scope. The exceptions of the model are the subclasses of \<^verbatim>\<open>Exception\<close> that the calls
  of this file can raise synchronously; \<^verbatim>\<open>except Exception\<close> catches each of them.
  Asynchronous interrupts (\<^verbatim>\<open>KeyboardInterrupt\<close>), a call that blocks forever (the code
  passes no timeout to \<^verbatim>\<open>requests\<close>) and a failing \<^verbatim>\<open>print\<close> are outside the model.
  Python floats are modelled as reals: the code only passes them through and writes the
  literal \<^verbatim>\<open>0.0\<close>.
\<close>

subsection \<open>Python values and exceptions\<close>

datatype pyval =
    PyNone
  | PyBool bool
  | PyInt int
  | PyFloat real
  | PyStr string
  | PyList "pyval list"
  | PyDict "(string \<times> pyval) list"

text \<open>
  \<open>PyDict\<close> lists the items of a dict with string keys (all that JSON produces) in
  insertion order; a key is looked up with \<open>map_of\<close>.
\<close>

datatype py_exception =
    ConnectionError
  | Timeout
  | RequestException
  | JSONDecodeError
  | KeyError string
  | TypeError
  | IndexError

type_synonym 'a raises = "py_exception + 'a"

text \<open>\<^verbatim>\<open>xs[i]\<close> on a list: a negative index counts from the end, out of range raises.\<close>

definition list_getitem :: "pyval list \<Rightarrow> int \<Rightarrow> pyval raises" where
  "list_getitem xs i =
     (if 0 \<le> i \<and> i < int (length xs) then Inr (xs ! nat i)
      else if i < 0 \<and> - int (length xs) \<le> i then Inr (xs ! nat (int (length xs) + i))
      else Inl IndexError)"

text \<open>
  \<^verbatim>\<open>v["key"]\<close> with a string key: a dict gives the value or raises \<^verbatim>\<open>KeyError\<close>; a list
  or a string raises \<^verbatim>\<open>TypeError\<close> (their indices must be integers), and so does every
  value that cannot be subscripted.
\<close>

fun getitem :: "pyval \<Rightarrow> string \<Rightarrow> pyval raises" where
  "getitem (PyDict kvs) k = (case map_of kvs k of Some v \<Rightarrow> Inr v | None \<Rightarrow> Inl (KeyError k))"
| "getitem _ k = Inl TypeError"

subsection \<open>HTTP requests, responses and the world\<close>

datatype http_method = GET | POST

record http_request =
  meth :: http_method
  url :: string
  json_arg :: "pyval option"

text \<open>
  A response carries its status code and, when its body is valid JSON, the parsed value.
  \<^verbatim>\<open>response.json()\<close> raises on any other body.
\<close>

record response =
  status_code :: int
  content :: "pyval option"

definition json :: "response \<Rightarrow> pyval raises" where
  "json r = (case content r of Some v \<Rightarrow> Inr v | None \<Rightarrow> Inl JSONDecodeError)"

type_synonym transport = "http_request \<Rightarrow> response raises"

datatype printed =
    PStr string
  | PExc py_exception
  | PVal pyval
  | PResponse response

record world =
  sent :: "http_request list"
  console :: "printed list"

definition print :: "printed \<Rightarrow> world \<Rightarrow> world" where
  "print p w = w\<lparr>console := console w @ [p]\<rparr>"

text \<open>
  The request that \<^verbatim>\<open>requests.get(url)\<close> sends, and the one that
  \<^verbatim>\<open>requests.post(url, json=j)\<close> sends.
\<close>

definition get_request :: "string \<Rightarrow> http_request" where
  "get_request u = \<lparr>meth = GET, url = u, json_arg = None\<rparr>"

definition post_request :: "string \<Rightarrow> pyval \<Rightarrow> http_request" where
  "post_request u j = \<lparr>meth = POST, url = u, json_arg = Some j\<rparr>"

definition requests_get :: "transport \<Rightarrow> string \<Rightarrow> world \<Rightarrow> response raises \<times> world" where
  "requests_get net u w =
     (let rq = get_request u
      in (net rq, w\<lparr>sent := sent w @ [rq]\<rparr>))"

definition requests_post :: "transport \<Rightarrow> string \<Rightarrow> pyval \<Rightarrow> world \<Rightarrow> response raises \<times> world" where
  "requests_post net u j w =
     (let rq = post_request u j
      in (net rq, w\<lparr>sent := sent w @ [rq]\<rparr>))"

subsection \<open>The class RobotAPI\<close>

record RobotAPI =
  prefix :: string
  user :: string
  password :: string
  connected :: bool

type_synonym 'a method_result = "'a raises \<times> RobotAPI \<times> world"

definition check_connection :: "transport \<Rightarrow> RobotAPI \<Rightarrow> world \<Rightarrow> bool method_result" where
  "check_connection net self w =
     (let u = prefix self @ ''/health'' in
      case requests_get net u w of
        (Inr response, w1) \<Rightarrow>
          if status_code response = 200 then (Inr True, self, w1)
          else (Inr False, self, w1)
      | (Inl e, w1) \<Rightarrow> (Inr False, self, print (PExc e) w1))"

text \<open>
  \<^verbatim>\<open>__init__\<close>: the fields are assigned, \<open>connected\<close> starts False, and the probe's
  answer decides whether it is set to True.
\<close>

definition init :: "transport \<Rightarrow> string \<Rightarrow> string \<Rightarrow> string \<Rightarrow> world \<Rightarrow> RobotAPI raises \<times> world" where
  "init net prefix0 user0 password0 w =
     (let self = \<lparr>prefix = prefix0, user = user0, password = password0, connected = False\<rparr> in
      case check_connection net self w of
        (Inl e, self1, w1) \<Rightarrow> (Inl e, w1)
      | (Inr c, self1, w1) \<Rightarrow>
          if c then
            (let w2 = print (PStr ''Successfully able to query API server'') w1
             in (Inr (self1\<lparr>connected := True\<rparr>), w2))
          else (Inr self1, print (PStr ''Unable to query API server'') w1))"

definition position :: "transport \<Rightarrow> RobotAPI \<Rightarrow> string \<Rightarrow> world \<Rightarrow> pyval method_result" where
  "position net self robot_name w =
     (let u = prefix self @ ''/current_position'' in
      case requests_get net u w of
        (Inr response, w1) \<Rightarrow>
          if status_code response = 200 then
            (case json response of
               Inr req \<Rightarrow>
                 (case getitem req ''position'' of
                    Inr v \<Rightarrow> (Inr v, self, w1)
                  | Inl e \<Rightarrow> (Inr PyNone, self, print (PExc e) w1))
             | Inl e \<Rightarrow> (Inr PyNone, self, print (PExc e) w1))
          else (Inr PyNone, self, w1)
      | (Inl e, w1) \<Rightarrow> (Inr PyNone, self, print (PExc e) w1))"

text \<open>
  \<^verbatim>\<open>navigate\<close> builds the JSON argument from \<^verbatim>\<open>pose[0]\<close>, \<^verbatim>\<open>pose[1]\<close>, \<^verbatim>\<open>pose[2]\<close> and prints
  the pose before the \<^verbatim>\<open>try\<close> block: an \<^verbatim>\<open>IndexError\<close> there is not caught.
\<close>

definition navigate ::
  "transport \<Rightarrow> RobotAPI \<Rightarrow> string \<Rightarrow> pyval list \<Rightarrow> string \<Rightarrow> world \<Rightarrow> bool method_result" where
  "navigate net self robot_name pose map_name w =
     (let u = prefix self @ ''/navigate'' in
      case list_getitem pose 0 of Inl e \<Rightarrow> (Inl e, self, w) | Inr x \<Rightarrow>
      case list_getitem pose 1 of Inl e \<Rightarrow> (Inl e, self, w) | Inr y \<Rightarrow>
      case list_getitem pose 2 of Inl e \<Rightarrow> (Inl e, self, w) | Inr th \<Rightarrow>
        (let position = PyDict [(''x'', x), (''y'', y), (''theta'', th)];
             w0 = print (PVal (PyList pose)) w
         in case requests_post net u position w0 of
              (Inr response, w1) \<Rightarrow>
                if status_code response = 200 then (Inr True, self, w1)
                else (Inr False, self, w1)
            | (Inl e, w1) \<Rightarrow> (Inr False, self, print (PExc e) w1)))"

text \<open>
  \<^verbatim>\<open>start_process\<close> and \<^verbatim>\<open>process_completed\<close> print a line and return True inside
  their \<^verbatim>\<open>try\<close> block; nothing in the block raises, so the handler is never entered.
\<close>

definition start_process ::
  "transport \<Rightarrow> RobotAPI \<Rightarrow> string \<Rightarrow> string \<Rightarrow> string \<Rightarrow> world \<Rightarrow> bool method_result" where
  "start_process net self robot_name process map_name w =
     (Inr True, self, print (PStr ''process_start'') w)"

definition stop :: "transport \<Rightarrow> RobotAPI \<Rightarrow> string \<Rightarrow> world \<Rightarrow> bool method_result" where
  "stop net self robot_name w =
     (let u = prefix self @ ''/stop_nav'';
          data = PyDict [(''bool'', PyBool True)]
      in case requests_post net u data w of
           (Inr response, w1) \<Rightarrow>
             if status_code response = 200 then (Inr True, self, w1)
             else (Inr False, self, w1)
         | (Inl e, w1) \<Rightarrow> (Inr False, self, print (PExc e) w1))"

definition navigation_remaining_duration ::
  "transport \<Rightarrow> RobotAPI \<Rightarrow> string \<Rightarrow> world \<Rightarrow> pyval method_result" where
  "navigation_remaining_duration net self robot_name w =
     (let u = prefix self @ ''/nav_remaining_duration'' in
      case requests_get net u w of
        (Inr response, w1) \<Rightarrow>
          if status_code response = 200 then
            (case json response of
               Inr res \<Rightarrow>
                 (case getitem res ''duration'' of
                    Inr v \<Rightarrow> (Inr v, self, w1)
                  | Inl e \<Rightarrow> (Inr (PyFloat 0.0), self, print (PExc e) w1))
             | Inl e \<Rightarrow> (Inr (PyFloat 0.0), self, print (PExc e) w1))
          else (Inr (PyFloat 0.0), self, w1)
      | (Inl e, w1) \<Rightarrow> (Inr (PyFloat 0.0), self, print (PExc e) w1))"

definition navigation_completed ::
  "transport \<Rightarrow> RobotAPI \<Rightarrow> string \<Rightarrow> world \<Rightarrow> bool method_result" where
  "navigation_completed net self robot_name w =
     (let u = prefix self @ ''/nav_stat'' in
      case requests_get net u w of
        (Inr response, w1) \<Rightarrow>
          (let w2 = print (PResponse response) w1
           in if status_code response = 200 then (Inr True, self, w2)
              else (Inr False, self, w2))
      | (Inl e, w1) \<Rightarrow> (Inr False, self, print (PExc e) w1))"

definition process_completed ::
  "transport \<Rightarrow> RobotAPI \<Rightarrow> string \<Rightarrow> world \<Rightarrow> bool method_result" where
  "process_completed net self robot_name w =
     (Inr True, self, print (PStr ''process_completed'') w)"

definition battery_soc :: "transport \<Rightarrow> RobotAPI \<Rightarrow> string \<Rightarrow> world \<Rightarrow> pyval method_result" where
  "battery_soc net self robot_name w =
     (let u = prefix self @ ''/soc'' in
      case requests_get net u w of
        (Inr response, w1) \<Rightarrow>
          if status_code response = 200 then
            (case json response of
               Inr res \<Rightarrow>
                 (case getitem res ''soc'' of
                    Inr v \<Rightarrow> (Inr v, self, w1)
                  | Inl e \<Rightarrow> (Inr (PyFloat 0.0), self, print (PExc e) w1))
             | Inl e \<Rightarrow> (Inr (PyFloat 0.0), self, print (PExc e) w1))
          else (Inr (PyFloat 0.0), self, w1)
      | (Inl e, w1) \<Rightarrow> (Inr (PyFloat 0.0), self, print (PExc e) w1))"



subsection \<open>Notions of the specification\<close>

text \<open>
  The specification speaks of a request that succeeds (the call returns a response whose
  status is 200, the only status the wire contract names) and of a transport-level
  failure (the call raises, or the status is another one).
\<close>

definition succeeds_200 :: "response raises \<Rightarrow> bool" where
  "succeeds_200 out = (case out of Inl e \<Rightarrow> False | Inr r \<Rightarrow> status_code r = 200)"

definition transport_failure :: "response raises \<Rightarrow> bool" where
  "transport_failure out = (case out of Inl e \<Rightarrow> True | Inr r \<Rightarrow> status_code r \<noteq> 200)"

text \<open>
  The value stored under a key of a response whose body is a JSON object; None when the
  body is not JSON, is not an object, or has no such key (a malformed body).
\<close>

definition body_value :: "response \<Rightarrow> string \<Rightarrow> pyval option" where
  "body_value r k = (case content r of Some (PyDict kvs) \<Rightarrow> map_of kvs k | _ \<Rightarrow> None)"

text \<open>A number between 0 and 1, and a number that is not negative.\<close>

fun is_fraction :: "pyval \<Rightarrow> bool" where
  "is_fraction (PyFloat x) = (0 \<le> x \<and> x \<le> 1)"
| "is_fraction (PyInt i) = (0 \<le> i \<and> i \<le> 1)"
| "is_fraction _ = False"

fun is_non_negative :: "pyval \<Rightarrow> bool" where
  "is_non_negative (PyFloat x) = (0 \<le> x)"
| "is_non_negative (PyInt i) = (0 \<le> i)"
| "is_non_negative _ = False"

subsection \<open>Concrete servers and objects for the examples\<close>

text \<open>A server that cannot be reached, and one that answers every request alike.\<close>

definition net_down :: transport where
  "net_down = (\<lambda>rq. Inl ConnectionError)"

definition net_reply :: "int \<Rightarrow> pyval option \<Rightarrow> transport" where
  "net_reply s b = (\<lambda>rq. Inr \<lparr>status_code = s, content = b\<rparr>)"

definition api0 :: RobotAPI where
  "api0 = \<lparr>prefix = ''http://robot'', user = ''admin'', password = ''secret'',
           connected = True\<rparr>"

definition w0 :: world where
  "w0 = \<lparr>sent = [], console = []\<rparr>"

section \<open>Properties\<close>

subsection \<open>Helper facts\<close>

lemma json_getitem_body_value:
  "json r = Inr b \<Longrightarrow> body_value r k = Some v \<Longrightarrow> getitem b k = Inr v"
  by (cases b) (auto simp: json_def body_value_def split: option.splits)

lemma json_getitem_no_value:
  "json r = Inr b \<Longrightarrow> body_value r k = None \<Longrightarrow> \<exists>e. getitem b k = Inl e"
  by (cases b) (auto simp: json_def body_value_def split: option.splits)

lemma json_raises_no_value:
  "json r = Inl e \<Longrightarrow> body_value r k = None"
  by (auto simp: json_def body_value_def split: option.splits)

lemma list_getitem_triple:
  "3 \<le> length pose \<Longrightarrow>
     list_getitem pose 0 = Inr (pose ! 0) \<and> list_getitem pose 1 = Inr (pose ! 1) \<and>
     list_getitem pose 2 = Inr (pose ! 2)"
  by (auto simp: list_getitem_def)

subsection \<open>Transport failures\<close>

text \<open>
  C1 (as amended). Each of the seven methods that issue a request returns its failure
  value when that request meets a transport-level failure (an exception of the call, or a
  status other than 200), and no exception leaves the method: False for check_connection,
  navigate (given a pose of at least three elements), stop and navigation_completed, None
  for position, 0.0 for navigation_remaining_duration and battery_soc. The two methods
  that issue no request, start_process and process_completed, return True.
\<close>

theorem transport_failure_gives_sentinel:
  "(transport_failure (net (get_request (prefix self @ ''/health''))) \<longrightarrow>
      fst (check_connection net self w) = Inr False) \<and>
   (transport_failure (net (get_request (prefix self @ ''/current_position''))) \<longrightarrow>
      fst (position net self robot_name w) = Inr PyNone) \<and>
   (3 \<le> length pose \<and>
    transport_failure (net (post_request (prefix self @ ''/navigate'')
      (PyDict [(''x'', pose ! 0), (''y'', pose ! 1), (''theta'', pose ! 2)]))) \<longrightarrow>
      fst (navigate net self robot_name pose map_name w) = Inr False) \<and>
   (transport_failure (net (post_request (prefix self @ ''/stop_nav'')
      (PyDict [(''bool'', PyBool True)]))) \<longrightarrow>
      fst (stop net self robot_name w) = Inr False) \<and>
   (transport_failure (net (get_request (prefix self @ ''/nav_remaining_duration''))) \<longrightarrow>
      fst (navigation_remaining_duration net self robot_name w) = Inr (PyFloat 0.0)) \<and>
   (transport_failure (net (get_request (prefix self @ ''/nav_stat''))) \<longrightarrow>
      fst (navigation_completed net self robot_name w) = Inr False) \<and>
   (transport_failure (net (get_request (prefix self @ ''/soc''))) \<longrightarrow>
      fst (battery_soc net self robot_name w) = Inr (PyFloat 0.0)) \<and>
   fst (start_process net self robot_name process map_name w) = Inr True \<and>
   fst (process_completed net self robot_name w) = Inr True"
proof -
  have c1: "transport_failure (net (get_request (prefix self @ ''/health''))) \<longrightarrow>
      fst (check_connection net self w) = Inr False"
    by (simp add: transport_failure_def check_connection_def requests_get_def Let_def
        split: sum.splits)
  have c2: "transport_failure (net (get_request (prefix self @ ''/current_position''))) \<longrightarrow>
      fst (position net self robot_name w) = Inr PyNone"
    by (simp add: transport_failure_def position_def requests_get_def Let_def
        split: sum.splits)
  have c3: "3 \<le> length pose \<and>
    transport_failure (net (post_request (prefix self @ ''/navigate'')
      (PyDict [(''x'', pose ! 0), (''y'', pose ! 1), (''theta'', pose ! 2)]))) \<longrightarrow>
      fst (navigate net self robot_name pose map_name w) = Inr False"
    using list_getitem_triple [of pose]
    by (simp add: transport_failure_def navigate_def requests_post_def Let_def
        split: sum.splits)
  have c4: "transport_failure (net (post_request (prefix self @ ''/stop_nav'')
      (PyDict [(''bool'', PyBool True)]))) \<longrightarrow>
      fst (stop net self robot_name w) = Inr False"
    by (simp add: transport_failure_def stop_def requests_post_def Let_def
        split: sum.splits)
  have c5: "transport_failure (net (get_request (prefix self @ ''/nav_remaining_duration''))) \<longrightarrow>
      fst (navigation_remaining_duration net self robot_name w) = Inr (PyFloat 0.0)"
    by (simp add: transport_failure_def navigation_remaining_duration_def requests_get_def
        Let_def split: sum.splits)
  have c6: "transport_failure (net (get_request (prefix self @ ''/nav_stat''))) \<longrightarrow>
      fst (navigation_completed net self robot_name w) = Inr False"
    by (simp add: transport_failure_def navigation_completed_def requests_get_def Let_def
        split: sum.splits)
  have c7: "transport_failure (net (get_request (prefix self @ ''/soc''))) \<longrightarrow>
      fst (battery_soc net self robot_name w) = Inr (PyFloat 0.0)"
    by (simp add: transport_failure_def battery_soc_def requests_get_def Let_def
        split: sum.splits)
  have c8: "fst (start_process net self robot_name process map_name w) = Inr True"
    by (simp add: start_process_def)
  have c9: "fst (process_completed net self robot_name w) = Inr True"
    by (simp add: process_completed_def)
  from c1 c2 c3 c4 c5 c6 c7 c8 c9 show ?thesis by blast
qed

theorem transport_failure_gives_sentinel_witness:
  "fst (check_connection net_down api0 w0) = Inr False \<and>
   fst (position net_down api0 ''robot1'' w0) = Inr PyNone \<and>
   fst (navigate net_down api0 ''robot1'' [PyFloat 3.0, PyFloat 4.0, PyFloat 1.57] ''L1'' w0)
     = Inr False \<and>
   fst (stop net_down api0 ''robot1'' w0) = Inr False \<and>
   fst (navigation_remaining_duration net_down api0 ''robot1'' w0) = Inr (PyFloat 0.0) \<and>
   fst (navigation_completed (net_reply 503 None) api0 ''robot1'' w0) = Inr False \<and>
   fst (battery_soc (net_reply 404 None) api0 ''robot1'' w0) = Inr (PyFloat 0.0)"
  using
    transport_failure_gives_sentinel
      [of net_down api0 w0 "''robot1''" "[PyFloat 3.0, PyFloat 4.0, PyFloat 1.57]" "''L1''"]
    transport_failure_gives_sentinel [of "net_reply 503 None" api0 w0 "''robot1''"]
    transport_failure_gives_sentinel [of "net_reply 404 None" api0 w0 "''robot1''"]
  by (simp add: net_down_def net_reply_def transport_failure_def)

text \<open>
  The claim as the specification states it gives start_process the failure value False.
  With a server that cannot be reached, start_process returns True.
\<close>

theorem start_process_ignores_transport_failure:
  "transport_failure (net_down (get_request (prefix api0 @ ''/health''))) \<and>
   fst (start_process net_down api0 ''robot1'' ''clean'' ''L1'' w0) = Inr True \<and>
   fst (start_process net_down api0 ''robot1'' ''clean'' ''L1'' w0) \<noteq> Inr False"
  by (simp add: start_process_def net_down_def transport_failure_def)


subsection \<open>Construction and the liveness probe\<close>

text \<open>
  C2. Constructing a RobotAPI never raises: it returns an object holding the three
  arguments, whose connected flag is True exactly when the probe (GET /health under the
  given base address) returned status 200, and False when the server could not be
  reached.
\<close>

theorem init_never_raises:
  "\<exists>self. fst (init net base usr pw w) = Inr self \<and>
      prefix self = base \<and> user self = usr \<and> password self = pw \<and>
      connected self = succeeds_200 (net (get_request (base @ ''/health'')))"
  by (simp add: init_def check_connection_def requests_get_def succeeds_200_def Let_def
      split: sum.splits)

theorem init_never_raises_witness:
  "(\<exists>self. fst (init net_down ''http://nowhere'' ''admin'' ''secret'' w0) = Inr self \<and>
      connected self = False) \<and>
   (\<exists>self. fst (init (net_reply 200 None) ''http://robot'' ''admin'' ''secret'' w0) = Inr self \<and>
      connected self = True)"
  using init_never_raises [of net_down "''http://nowhere''" "''admin''" "''secret''" w0]
    init_never_raises [of "net_reply 200 None" "''http://robot''" "''admin''" "''secret''" w0]
  by (auto simp: net_down_def net_reply_def succeeds_200_def)

text \<open>
  C3. check_connection issues one GET for /health under the base address and returns
  True if and only if that request completes with status 200; with any other status or
  any exception it returns False.
\<close>

theorem check_connection_iff_200:
  "fst (check_connection net self w) =
     Inr (succeeds_200 (net (get_request (prefix self @ ''/health'')))) \<and>
   sent (snd (snd (check_connection net self w))) =
     sent w @ [get_request (prefix self @ ''/health'')]"
  by (simp add: check_connection_def requests_get_def succeeds_200_def print_def Let_def
      split: sum.splits)

theorem check_connection_iff_200_witness:
  "fst (check_connection (net_reply 200 None) api0 w0) = Inr True \<and>
   fst (check_connection (net_reply 204 None) api0 w0) = Inr False \<and>
   fst (check_connection net_down api0 w0) = Inr False \<and>
   sent (snd (snd (check_connection net_down api0 w0))) = [get_request ''http://robot/health'']"
  using check_connection_iff_200 [of "net_reply 200 None" api0 w0]
    check_connection_iff_200 [of "net_reply 204 None" api0 w0]
    check_connection_iff_200 [of net_down api0 w0]
  by (simp add: net_down_def net_reply_def succeeds_200_def api0_def w0_def)

subsection \<open>Queries\<close>

text \<open>
  C4. position returns the server's pose unchanged: when GET /current_position returns
  status 200 with a JSON object holding a value under "position", that value is the
  result; with another status, an exception of the call, or a body without such a value,
  the result is None.
\<close>

theorem position_roundtrip:
  "(net (get_request (prefix self @ ''/current_position'')) = Inr r \<and> status_code r = 200 \<and>
      body_value r ''position'' = Some v \<longrightarrow>
      fst (position net self robot_name w) = Inr v) \<and>
   (net (get_request (prefix self @ ''/current_position'')) = Inr r \<and> status_code r = 200 \<and>
      body_value r ''position'' = None \<longrightarrow>
      fst (position net self robot_name w) = Inr PyNone) \<and>
   (transport_failure (net (get_request (prefix self @ ''/current_position''))) \<longrightarrow>
      fst (position net self robot_name w) = Inr PyNone)"
proof -
  let ?rq = "get_request (prefix self @ ''/current_position'')"
  have found: "fst (position net self robot_name w) = Inr v"
    if "net ?rq = Inr r" "status_code r = 200" "body_value r ''position'' = Some v"
  proof (cases "json r")
    case (Inl e)
    with that(3) json_raises_no_value [of r e "''position''"] show ?thesis by simp
  next
    case (Inr b)
    with that json_getitem_body_value [of r b "''position''" v] show ?thesis
      by (simp add: position_def requests_get_def Let_def)
  qed
  have missing: "fst (position net self robot_name w) = Inr PyNone"
    if "net ?rq = Inr r" "status_code r = 200" "body_value r ''position'' = None"
  proof (cases "json r")
    case (Inl e)
    with that show ?thesis by (simp add: position_def requests_get_def Let_def)
  next
    case (Inr b)
    with that(3) json_getitem_no_value [of r b "''position''"]
    obtain e where "getitem b ''position'' = Inl e" by blast
    with Inr that show ?thesis by (simp add: position_def requests_get_def Let_def)
  qed
  have failed: "fst (position net self robot_name w) = Inr PyNone"
    if "transport_failure (net ?rq)"
    using that
    by (simp add: transport_failure_def position_def requests_get_def Let_def
        split: sum.splits)
  from found missing failed show ?thesis by blast
qed

theorem position_roundtrip_witness:
  "fst (position
     (net_reply 200 (Some (PyDict [(''position'', PyList [PyFloat 1.0, PyFloat 2.0, PyFloat 0.5])])))
     api0 ''robot1'' w0) = Inr (PyList [PyFloat 1.0, PyFloat 2.0, PyFloat 0.5]) \<and>
   fst (position (net_reply 200 (Some (PyDict [(''pose'', PyList [])]))) api0 ''robot1'' w0)
     = Inr PyNone \<and>
   fst (position net_down api0 ''robot1'' w0) = Inr PyNone"
  using
    position_roundtrip
      [of "net_reply 200 (Some (PyDict [(''position'', PyList [PyFloat 1.0, PyFloat 2.0, PyFloat 0.5])]))"
          api0
          "\<lparr>status_code = 200,
            content = Some (PyDict [(''position'', PyList [PyFloat 1.0, PyFloat 2.0, PyFloat 0.5])])\<rparr>"
          "PyList [PyFloat 1.0, PyFloat 2.0, PyFloat 0.5]" "''robot1''" w0]
    position_roundtrip
      [of "net_reply 200 (Some (PyDict [(''pose'', PyList [])]))" api0
          "\<lparr>status_code = 200, content = Some (PyDict [(''pose'', PyList [])])\<rparr>"
          _ "''robot1''" w0]
    position_roundtrip [of net_down api0 _ _ "''robot1''" w0]
  by (simp add: net_down_def net_reply_def body_value_def transport_failure_def)

subsection \<open>Commands\<close>

text \<open>
  C5. For every pose [x, y, theta], navigate issues exactly one request, a POST to
  /navigate under the base address with the JSON object {"x": x, "y": y, "theta": theta},
  and returns True exactly when that request completes with status 200, False otherwise.
\<close>

theorem navigate_posts_pose:
  "fst (navigate net self robot_name [x, y, theta] map_name w) =
     Inr (succeeds_200 (net (post_request (prefix self @ ''/navigate'')
       (PyDict [(''x'', x), (''y'', y), (''theta'', theta)])))) \<and>
   sent (snd (snd (navigate net self robot_name [x, y, theta] map_name w))) =
     sent w @ [post_request (prefix self @ ''/navigate'')
       (PyDict [(''x'', x), (''y'', y), (''theta'', theta)])]"
  by (simp add: navigate_def list_getitem_def requests_post_def succeeds_200_def print_def
      Let_def split: sum.splits)

theorem navigate_posts_pose_witness:
  "fst (navigate (net_reply 200 None) api0 ''robot1'' [PyFloat 3.0, PyFloat 4.0, PyFloat 1.57]
     ''L1'' w0) = Inr True \<and>
   sent (snd (snd (navigate (net_reply 200 None) api0 ''robot1''
     [PyFloat 3.0, PyFloat 4.0, PyFloat 1.57] ''L1'' w0))) =
     [post_request ''http://robot/navigate''
        (PyDict [(''x'', PyFloat 3.0), (''y'', PyFloat 4.0), (''theta'', PyFloat 1.57)])]"
  using navigate_posts_pose
    [of "net_reply 200 None" api0 "''robot1''" "PyFloat 3.0" "PyFloat 4.0" "PyFloat 1.57"
        "''L1''" w0]
  by (simp add: net_reply_def succeeds_200_def api0_def w0_def)


text \<open>
  C8. start_process and process_completed issue no request and return True, whatever the
  robot identity, the process name, the map name and the server.
\<close>

theorem stubs_return_true_without_request:
  "fst (start_process net self robot_name process map_name w) = Inr True \<and>
   sent (snd (snd (start_process net self robot_name process map_name w))) = sent w \<and>
   fst (process_completed net self robot_name w) = Inr True \<and>
   sent (snd (snd (process_completed net self robot_name w))) = sent w"
  by (simp add: start_process_def process_completed_def print_def)

theorem stubs_return_true_without_request_witness:
  "fst (start_process net_down api0 ''robot1'' ''clean'' ''L1'' w0) = Inr True \<and>
   sent (snd (snd (start_process net_down api0 ''robot1'' ''clean'' ''L1'' w0))) = [] \<and>
   fst (process_completed net_down api0 ''robot1'' w0) = Inr True \<and>
   sent (snd (snd (process_completed net_down api0 ''robot1'' w0))) = []"
  using stubs_return_true_without_request [of net_down api0 "''robot1''" "''clean''" "''L1''" w0]
  by (simp add: w0_def)

subsection \<open>Battery and remaining duration\<close>

text \<open>
  C6 (as amended). When GET /soc returns status 200 with a JSON object holding a value
  under "soc", battery_soc returns that value unchanged, so the result is a fraction in
  [0.0, 1.0] whenever the server's value is one; a body {"soc": 0.75} gives 0.75. With another
  status, an exception of the call, or a body without such a value, the result is 0.0.
\<close>

theorem battery_soc_passes_value:
  "(net (get_request (prefix self @ ''/soc'')) = Inr r \<and> status_code r = 200 \<and>
      body_value r ''soc'' = Some v \<longrightarrow>
      fst (battery_soc net self robot_name w) = Inr v) \<and>
   (net (get_request (prefix self @ ''/soc'')) = Inr r \<and> status_code r = 200 \<and>
      body_value r ''soc'' = None \<longrightarrow>
      fst (battery_soc net self robot_name w) = Inr (PyFloat 0.0)) \<and>
   (transport_failure (net (get_request (prefix self @ ''/soc''))) \<longrightarrow>
      fst (battery_soc net self robot_name w) = Inr (PyFloat 0.0)) \<and>
   (net (get_request (prefix self @ ''/soc'')) = Inr r \<and> status_code r = 200 \<and>
      body_value r ''soc'' = Some v \<and> is_fraction v \<longrightarrow>
      (case fst (battery_soc net self robot_name w) of Inr x \<Rightarrow> is_fraction x | Inl e \<Rightarrow> False))"
proof -
  let ?rq = "get_request (prefix self @ ''/soc'')"
  have found: "fst (battery_soc net self robot_name w) = Inr v"
    if "net ?rq = Inr r" "status_code r = 200" "body_value r ''soc'' = Some v"
  proof (cases "json r")
    case (Inl e)
    with that(3) json_raises_no_value [of r e "''soc''"] show ?thesis by simp
  next
    case (Inr b)
    with that json_getitem_body_value [of r b "''soc''" v] show ?thesis
      by (simp add: battery_soc_def requests_get_def Let_def)
  qed
  have missing: "fst (battery_soc net self robot_name w) = Inr (PyFloat 0.0)"
    if "net ?rq = Inr r" "status_code r = 200" "body_value r ''soc'' = None"
  proof (cases "json r")
    case (Inl e)
    with that show ?thesis by (simp add: battery_soc_def requests_get_def Let_def)
  next
    case (Inr b)
    with that(3) json_getitem_no_value [of r b "''soc''"]
    obtain e where "getitem b ''soc'' = Inl e" by blast
    with Inr that show ?thesis by (simp add: battery_soc_def requests_get_def Let_def)
  qed
  have failed: "fst (battery_soc net self robot_name w) = Inr (PyFloat 0.0)"
    if "transport_failure (net ?rq)"
    using that
    by (simp add: transport_failure_def battery_soc_def requests_get_def Let_def
        split: sum.splits)
  have in_range:
    "case fst (battery_soc net self robot_name w) of Inr x \<Rightarrow> is_fraction x | Inl e \<Rightarrow> False"
    if "net ?rq = Inr r" "status_code r = 200" "body_value r ''soc'' = Some v" "is_fraction v"
    using found [OF that(1-3)] that(4) by simp
  from found missing failed in_range show ?thesis by blast
qed

theorem battery_soc_passes_value_witness:
  "fst (battery_soc (net_reply 200 (Some (PyDict [(''soc'', PyFloat 0.75)]))) api0 ''robot1'' w0)
     = Inr (PyFloat 0.75) \<and>
   is_fraction (PyFloat 0.75) \<and>
   fst (battery_soc (net_reply 200 (Some (PyStr ''full''))) api0 ''robot1'' w0)
     = Inr (PyFloat 0.0) \<and>
   fst (battery_soc (net_reply 500 None) api0 ''robot1'' w0) = Inr (PyFloat 0.0)"
  using
    battery_soc_passes_value
      [of "net_reply 200 (Some (PyDict [(''soc'', PyFloat 0.75)]))" api0
          "\<lparr>status_code = 200, content = Some (PyDict [(''soc'', PyFloat 0.75)])\<rparr>"
          "PyFloat 0.75" "''robot1''" w0]
    battery_soc_passes_value
      [of "net_reply 200 (Some (PyStr ''full''))" api0
          "\<lparr>status_code = 200, content = Some (PyStr ''full'')\<rparr>" _ "''robot1''" w0]
    battery_soc_passes_value [of "net_reply 500 None" api0 _ _ "''robot1''" w0]
  by (simp add: net_reply_def body_value_def transport_failure_def)

text \<open>
  The claim as the specification states it promises a fraction in [0.0, 1.0] on every
  response with status 200. A server that answers {"soc": 1.5} gets 1.5 back.
\<close>

theorem battery_soc_out_of_range:
  "fst (battery_soc (net_reply 200 (Some (PyDict [(''soc'', PyFloat 1.5)]))) api0 ''robot1'' w0)
     = Inr (PyFloat 1.5) \<and>
   \<not> is_fraction (PyFloat 1.5)"
  by (simp add: battery_soc_def requests_get_def net_reply_def json_def Let_def)

text \<open>
  C7 (as amended). When GET /nav_remaining_duration returns status 200 with a JSON object
  holding a value under "duration", navigation_remaining_duration returns that value
  unchanged, so the result is non-negative whenever the server's value is. With
  another status, an exception of the call, or a body without such a value, the result
  is 0.0.
\<close>

theorem navigation_remaining_duration_passes_value:
  "(net (get_request (prefix self @ ''/nav_remaining_duration'')) = Inr r \<and>
      status_code r = 200 \<and> body_value r ''duration'' = Some v \<longrightarrow>
      fst (navigation_remaining_duration net self robot_name w) = Inr v) \<and>
   (net (get_request (prefix self @ ''/nav_remaining_duration'')) = Inr r \<and>
      status_code r = 200 \<and> body_value r ''duration'' = None \<longrightarrow>
      fst (navigation_remaining_duration net self robot_name w) = Inr (PyFloat 0.0)) \<and>
   (transport_failure (net (get_request (prefix self @ ''/nav_remaining_duration''))) \<longrightarrow>
      fst (navigation_remaining_duration net self robot_name w) = Inr (PyFloat 0.0)) \<and>
   (net (get_request (prefix self @ ''/nav_remaining_duration'')) = Inr r \<and>
      status_code r = 200 \<and> body_value r ''duration'' = Some v \<and> is_non_negative v \<longrightarrow>
      (case fst (navigation_remaining_duration net self robot_name w) of
         Inr x \<Rightarrow> is_non_negative x | Inl e \<Rightarrow> False))"
proof -
  let ?rq = "get_request (prefix self @ ''/nav_remaining_duration'')"
  let ?res = "fst (navigation_remaining_duration net self robot_name w)"
  have ok: "?res = Inr v"
    if "net ?rq = Inr r" "status_code r = 200" "body_value r ''duration'' = Some v"
  proof (cases "json r")
    case (Inl e)
    with that(3) json_raises_no_value [of r e "''duration''"] show ?thesis by simp
  next
    case (Inr b)
    with that json_getitem_body_value [of r b "''duration''" v] show ?thesis
      by (simp add: navigation_remaining_duration_def requests_get_def Let_def)
  qed
  have absent: "?res = Inr (PyFloat 0.0)"
    if "net ?rq = Inr r" "status_code r = 200" "body_value r ''duration'' = None"
  proof (cases "json r")
    case (Inl e)
    with that show ?thesis
      by (simp add: navigation_remaining_duration_def requests_get_def Let_def)
  next
    case (Inr b)
    with that(3) json_getitem_no_value [of r b "''duration''"]
    obtain e where "getitem b ''duration'' = Inl e" by blast
    with Inr that show ?thesis
      by (simp add: navigation_remaining_duration_def requests_get_def Let_def)
  qed
  have down: "?res = Inr (PyFloat 0.0)" if "transport_failure (net ?rq)"
    using that
    by (simp add: transport_failure_def navigation_remaining_duration_def requests_get_def
        Let_def split: sum.splits)
  have non_negative:
    "case ?res of Inr x \<Rightarrow> is_non_negative x | Inl e \<Rightarrow> False"
    if "net ?rq = Inr r" "status_code r = 200" "body_value r ''duration'' = Some v"
      "is_non_negative v"
    using ok [OF that(1-3)] that(4) by simp
  from ok absent down non_negative show ?thesis by blast
qed

theorem navigation_remaining_duration_passes_value_witness:
  "fst (navigation_remaining_duration
     (net_reply 200 (Some (PyDict [(''duration'', PyFloat 12.5)]))) api0 ''robot1'' w0)
     = Inr (PyFloat 12.5) \<and>
   is_non_negative (PyFloat 12.5) \<and>
   fst (navigation_remaining_duration (net_reply 200 None) api0 ''robot1'' w0)
     = Inr (PyFloat 0.0) \<and>
   fst (navigation_remaining_duration net_down api0 ''robot1'' w0) = Inr (PyFloat 0.0)"
  using
    navigation_remaining_duration_passes_value
      [of "net_reply 200 (Some (PyDict [(''duration'', PyFloat 12.5)]))" api0
          "\<lparr>status_code = 200, content = Some (PyDict [(''duration'', PyFloat 12.5)])\<rparr>"
          "PyFloat 12.5" "''robot1''" w0]
    navigation_remaining_duration_passes_value
      [of "net_reply 200 None" api0 "\<lparr>status_code = 200, content = None\<rparr>" _ "''robot1''" w0]
    navigation_remaining_duration_passes_value [of net_down api0 _ _ "''robot1''" w0]
  by (simp add: net_down_def net_reply_def body_value_def transport_failure_def)

text \<open>
  The claim as the specification states it promises a non-negative number on every
  response with status 200. A server that answers {"duration": -1.0} gets -1.0 back.
\<close>

theorem navigation_remaining_duration_negative:
  "fst (navigation_remaining_duration
     (net_reply 200 (Some (PyDict [(''duration'', PyFloat (- 1.0))]))) api0 ''robot1'' w0)
     = Inr (PyFloat (- 1.0)) \<and>
   \<not> is_non_negative (PyFloat (- 1.0))"
  by (simp add: navigation_remaining_duration_def requests_get_def net_reply_def json_def
      Let_def)

subsection \<open>Frame and independence of the robot identity\<close>

text \<open>
  C9. No method modifies the object: after each of the nine methods, check_connection
  included, the base address, the user, the secret and the connected flag are those the
  object had before, whatever the server answers. The flag is assigned during
  construction only.
\<close>

theorem methods_leave_object_unchanged:
  "fst (snd (check_connection net self w)) = self \<and>
   fst (snd (position net self robot_name w)) = self \<and>
   fst (snd (navigate net self robot_name pose map_name w)) = self \<and>
   fst (snd (start_process net self robot_name process map_name w)) = self \<and>
   fst (snd (stop net self robot_name w)) = self \<and>
   fst (snd (navigation_remaining_duration net self robot_name w)) = self \<and>
   fst (snd (navigation_completed net self robot_name w)) = self \<and>
   fst (snd (process_completed net self robot_name w)) = self \<and>
   fst (snd (battery_soc net self robot_name w)) = self"
proof -
  have f1: "fst (snd (check_connection net self w)) = self"
    by (simp add: check_connection_def Let_def split: prod.splits sum.splits)
  have f2: "fst (snd (position net self robot_name w)) = self"
    by (simp add: position_def Let_def split: prod.splits sum.splits)
  have f3: "fst (snd (navigate net self robot_name pose map_name w)) = self"
    by (simp add: navigate_def Let_def split: prod.splits sum.splits)
  have f4: "fst (snd (start_process net self robot_name process map_name w)) = self"
    by (simp add: start_process_def)
  have f5: "fst (snd (stop net self robot_name w)) = self"
    by (simp add: stop_def Let_def split: prod.splits sum.splits)
  have f6: "fst (snd (navigation_remaining_duration net self robot_name w)) = self"
    by (simp add: navigation_remaining_duration_def Let_def split: prod.splits sum.splits)
  have f7: "fst (snd (navigation_completed net self robot_name w)) = self"
    by (simp add: navigation_completed_def Let_def split: prod.splits sum.splits)
  have f8: "fst (snd (process_completed net self robot_name w)) = self"
    by (simp add: process_completed_def)
  have f9: "fst (snd (battery_soc net self robot_name w)) = self"
    by (simp add: battery_soc_def Let_def split: prod.splits sum.splits)
  from f1 f2 f3 f4 f5 f6 f7 f8 f9 show ?thesis by simp
qed

text \<open>
  An object built while the server was down keeps connected = False after a later
  check_connection that succeeds.
\<close>

theorem methods_leave_object_unchanged_witness:
  "fst (check_connection (net_reply 200 None) (api0\<lparr>connected := False\<rparr>) w0) = Inr True \<and>
   connected (fst (snd (check_connection (net_reply 200 None) (api0\<lparr>connected := False\<rparr>) w0)))
     = False \<and>
   fst (snd (navigate net_down api0 ''robot1'' [] ''L1'' w0)) = api0"
proof -
  have "fst (check_connection (net_reply 200 None) (api0\<lparr>connected := False\<rparr>) w0) = Inr True"
    by (simp add: check_connection_def requests_get_def net_reply_def Let_def)
  with methods_leave_object_unchanged [of "net_reply 200 None" "api0\<lparr>connected := False\<rparr>" w0]
    methods_leave_object_unchanged [of net_down api0 w0 "''robot1''" "[]" "''L1''"]
  show ?thesis by simp
qed

text \<open>
  C10. The robot identity is not used: two calls of a method that differ in the
  robot_name argument only, on the same object, server and world, issue the same requests,
  print the same lines and return the same result.
\<close>

theorem robot_name_unused:
  "position net self n1 w = position net self n2 w \<and>
   navigate net self n1 pose map_name w = navigate net self n2 pose map_name w \<and>
   start_process net self n1 process map_name w = start_process net self n2 process map_name w \<and>
   stop net self n1 w = stop net self n2 w \<and>
   navigation_remaining_duration net self n1 w = navigation_remaining_duration net self n2 w \<and>
   navigation_completed net self n1 w = navigation_completed net self n2 w \<and>
   process_completed net self n1 w = process_completed net self n2 w \<and>
   battery_soc net self n1 w = battery_soc net self n2 w"
  by (simp add: position_def navigate_def start_process_def stop_def
      navigation_remaining_duration_def navigation_completed_def process_completed_def
      battery_soc_def)

theorem robot_name_unused_witness:
  "position (net_reply 200 None) api0 ''robot1'' w0 = position (net_reply 200 None) api0 ''robot2'' w0 \<and>
   navigate net_down api0 ''robot1'' [PyInt 1, PyInt 2, PyInt 3] ''L1'' w0 =
     navigate net_down api0 ''robot2'' [PyInt 1, PyInt 2, PyInt 3] ''L1'' w0 \<and>
   battery_soc net_down api0 ''robot1'' w0 = battery_soc net_down api0 ''robot2'' w0"
  using robot_name_unused [of "net_reply 200 None" api0 "''robot1''" w0 "''robot2''"]
    robot_name_unused [of net_down api0 "''robot1''" w0 "''robot2''" "[PyInt 1, PyInt 2, PyInt 3]" "''L1''"]
  by simp

end
